theory Spec2Isabelle
  imports Complex_Main
begin

section \<open>Numbers\<close>

text \<open>
  JavaScript numbers are modelled by exact values: a quantity is an \<open>int\<close>, an amount of
  money is a \<open>rat\<close>. The representation error of binary floating point is outside the
  model; sums are taken in the order in which the source's \<open>reduce\<close> takes them.

  \<open>parseFloat(x.toFixed(2))\<close>: \<open>toFixed\<close> picks the integer \<open>n\<close> for which \<open>n / 100\<close> is
  closest to \<open>x\<close>, the larger \<open>n\<close> on a tie, and treats a negative \<open>x\<close> through its
  absolute value.
\<close>

definition toFixed2 :: "rat \<Rightarrow> rat" where
  "toFixed2 x =
     (if x < 0 then - (of_int \<lfloor>- x * 100 + 1 / 2\<rfloor> / 100)
      else of_int \<lfloor>x * 100 + 1 / 2\<rfloor> / 100)"

section \<open>Arrays\<close>

text \<open>\<open>Array.prototype.findIndex\<close>: the index of the first match, \<open>-1\<close> when there is none.\<close>

fun findIndex_from :: "nat \<Rightarrow> ('a \<Rightarrow> bool) \<Rightarrow> 'a list \<Rightarrow> int" where
  "findIndex_from k P [] = - 1"
| "findIndex_from k P (x # xs) = (if P x then int k else findIndex_from (Suc k) P xs)"

definition findIndex :: "('a \<Rightarrow> bool) \<Rightarrow> 'a list \<Rightarrow> int" where
  "findIndex P xs = findIndex_from 0 P xs"

text \<open>\<open>Array.prototype.map\<close> with a callback that also reads the index.\<close>

fun map_index_from :: "nat \<Rightarrow> ('a \<Rightarrow> nat \<Rightarrow> 'b) \<Rightarrow> 'a list \<Rightarrow> 'b list" where
  "map_index_from k f [] = []"
| "map_index_from k f (x # xs) = f x k # map_index_from (Suc k) f xs"

definition map_index :: "('a \<Rightarrow> nat \<Rightarrow> 'b) \<Rightarrow> 'a list \<Rightarrow> 'b list" where
  "map_index f xs = map_index_from 0 f xs"

section \<open>Cart store (src/src/context/CartContext.js)\<close>

text \<open>
  Records share one name space for their fields, so a field carries a prefix where the
  source uses one name in several objects: \<open>p_price\<close> is \<open>price\<close> of a product, \<open>bl_price\<close>
  that of a booking line, \<open>op_price\<close> that of a line of the request body.

  The catalog item as the client holds it; \<open>p_id\<close> is the field \<open>_id\<close>.
\<close>

record product =
  p_id :: string
  p_name :: string
  p_image :: string
  p_category :: string
  p_price :: rat

record cart_line =
  product :: product
  quantity :: int
  price :: rat

record cart_state =
  items :: "cart_line list"
  totalItems :: int
  totalAmount :: rat
  loading :: bool
  error :: "string option"

definition initialState :: cart_state where
  "initialState =
     \<lparr>items = [], totalItems = 0, totalAmount = 0, loading = False, error = None\<rparr>"

text \<open>
  The payload of \<open>LOAD_CART\<close> is whatever was read back from local storage; each field it
  carries replaces the field of the state.
\<close>

record cart_payload =
  pl_items :: "cart_line list option"
  pl_totalItems :: "int option"
  pl_totalAmount :: "rat option"
  pl_loading :: "bool option"
  pl_error :: "string option option"

datatype action =
    ADD_ITEM product int
  | REMOVE_ITEM string
  | UPDATE_QUANTITY string int
  | CLEAR_CART
  | SET_LOADING bool
  | SET_ERROR "string option"
  | CLEAR_ERROR
  | LOAD_CART cart_payload
  | OTHER_ACTION

definition sumQuantity :: "cart_line list \<Rightarrow> int" where
  "sumQuantity newItems = foldl (\<lambda>sum item. sum + quantity item) 0 newItems"

definition sumAmount :: "cart_line list \<Rightarrow> rat" where
  "sumAmount newItems = foldl (\<lambda>sum item. sum + price item * of_int (quantity item)) 0 newItems"

fun cartReducer :: "cart_state \<Rightarrow> action \<Rightarrow> cart_state" where
  "cartReducer state (ADD_ITEM p qty) =
     (let existingItemIndex = findIndex (\<lambda>item. p_id (product item) = p_id p) (items state);
          newItems =
            (if existingItemIndex \<ge> 0
             then map_index (\<lambda>item index.
                    if int index = existingItemIndex
                    then item\<lparr>quantity := quantity item + qty\<rparr>
                    else item) (items state)
             else items state @ [\<lparr>product = p, quantity = qty, price = p_price p\<rparr>]);
          totalItems' = sumQuantity newItems;
          totalAmount' = sumAmount newItems
      in state\<lparr>items := newItems, totalItems := totalItems',
               totalAmount := toFixed2 totalAmount', error := None\<rparr>)"
| "cartReducer state (REMOVE_ITEM productId) =
     (let newItems = filter (\<lambda>item. p_id (product item) \<noteq> productId) (items state);
          totalItems' = sumQuantity newItems;
          totalAmount' = sumAmount newItems
      in state\<lparr>items := newItems, totalItems := totalItems',
               totalAmount := toFixed2 totalAmount'\<rparr>)"
| "cartReducer state (UPDATE_QUANTITY productId qty) =
     (let newItems =
            filter (\<lambda>item. quantity item > 0)
              (map (\<lambda>item. if p_id (product item) = productId
                            then item\<lparr>quantity := max 0 qty\<rparr>
                            else item) (items state));
          totalItems' = sumQuantity newItems;
          totalAmount' = sumAmount newItems
      in state\<lparr>items := newItems, totalItems := totalItems',
               totalAmount := toFixed2 totalAmount'\<rparr>)"
| "cartReducer state CLEAR_CART = state\<lparr>items := [], totalItems := 0, totalAmount := 0\<rparr>"
| "cartReducer state (SET_LOADING b) = state\<lparr>loading := b\<rparr>"
| "cartReducer state (SET_ERROR e) = state\<lparr>error := e, loading := False\<rparr>"
| "cartReducer state CLEAR_ERROR = state\<lparr>error := None\<rparr>"
| "cartReducer state (LOAD_CART payload) =
     \<lparr>items = (case pl_items payload of None \<Rightarrow> items state | Some v \<Rightarrow> v),
      totalItems = (case pl_totalItems payload of None \<Rightarrow> totalItems state | Some v \<Rightarrow> v),
      totalAmount = (case pl_totalAmount payload of None \<Rightarrow> totalAmount state | Some v \<Rightarrow> v),
      loading = (case pl_loading payload of None \<Rightarrow> loading state | Some v \<Rightarrow> v),
      error = (case pl_error payload of None \<Rightarrow> error state | Some v \<Rightarrow> v)\<rparr>"
| "cartReducer state OTHER_ACTION = state"

text \<open>
  The operations the provider exposes dispatch one action each. A call of \<open>addToCart\<close>
  without a quantity (\<open>None\<close>) takes the default \<open>1\<close>.
\<close>

definition addToCart :: "product \<Rightarrow> int option \<Rightarrow> cart_state \<Rightarrow> cart_state" where
  "addToCart p qty state =
     cartReducer state (ADD_ITEM p (case qty of None \<Rightarrow> 1 | Some q \<Rightarrow> q))"

definition removeFromCart :: "string \<Rightarrow> cart_state \<Rightarrow> cart_state" where
  "removeFromCart productId state = cartReducer state (REMOVE_ITEM productId)"

definition updateQuantity :: "string \<Rightarrow> int \<Rightarrow> cart_state \<Rightarrow> cart_state" where
  "updateQuantity productId qty state = cartReducer state (UPDATE_QUANTITY productId qty)"

definition clearCart :: "cart_state \<Rightarrow> cart_state" where
  "clearCart state = cartReducer state CLEAR_CART"

definition clearError :: "cart_state \<Rightarrow> cart_state" where
  "clearError state = cartReducer state CLEAR_ERROR"

text \<open>
  \<open>createBooking\<close> is the one asynchronous operation. Its run is recorded as the result
  the caller sees, the actions it dispatched in order, and the requests it sent to the
  booking service. The service call \<open>userAPI.createBooking\<close> is a parameter: it resolves
  to a response or rejects with an error.
\<close>

record booking_item =
  bi_productId :: string
  bi_quantity :: int
  bi_price :: rat

record booking_data =
  bd_products :: "booking_item list"
  bd_totalAmount :: rat

record 'd api_response =
  resp_data :: 'd

text \<open>
  Of a rejection, the handler reads \<open>error.response?.data?.error?.message\<close> only:
  \<open>None\<close> where a link of that chain is undefined.
\<close>

record api_error =
  response_error_message :: "string option"

datatype thrown = Error string | Rejected api_error

record 'd checkout =
  outcome :: "thrown + 'd"
  dispatched :: "action list"
  requests :: "booking_data list"

definition createBooking ::
  "(booking_data \<Rightarrow> api_error + 'd api_response) \<Rightarrow> cart_state \<Rightarrow> 'd checkout" where
  "createBooking api state =
     (if length (items state) = 0
      then \<lparr>outcome = Inl (Error ''Cart is empty''), dispatched = [], requests = []\<rparr>
      else
        let bookingData =
              \<lparr>bd_products =
                 map (\<lambda>item. \<lparr>bi_productId = p_id (product item),
                               bi_quantity = quantity item,
                               bi_price = price item\<rparr>) (items state),
               bd_totalAmount = totalAmount state\<rparr>
        in case api bookingData of
             Inr response \<Rightarrow>
               \<lparr>outcome = Inr (resp_data response),
                dispatched = [SET_LOADING True, CLEAR_CART, SET_LOADING False],
                requests = [bookingData]\<rparr>
           | Inl err \<Rightarrow>
               let errorMessage =
                     (case response_error_message err of
                        None \<Rightarrow> ''Failed to create booking''
                      | Some m \<Rightarrow> if m = [] then ''Failed to create booking'' else m)
               in \<lparr>outcome = Inl (Rejected err),
                   dispatched = [SET_LOADING True, SET_ERROR (Some errorMessage),
                                 SET_LOADING False],
                   requests = [bookingData]\<rparr>)"

text \<open>The cart state once the dispatched actions have gone through the reducer.\<close>

definition stateAfter :: "cart_state \<Rightarrow> 'd checkout \<Rightarrow> cart_state" where
  "stateAfter state run = foldl cartReducer state (dispatched run)"

section \<open>Sequences of cart operations\<close>

datatype cart_op =
    AddToCart product "int option"
  | RemoveFromCart string
  | UpdateQuantity string int

fun apply_op :: "cart_state \<Rightarrow> cart_op \<Rightarrow> cart_state" where
  "apply_op state (AddToCart p qty) = addToCart p qty state"
| "apply_op state (RemoveFromCart productId) = removeFromCart productId state"
| "apply_op state (UpdateQuantity productId qty) = updateQuantity productId qty state"

definition run_ops :: "cart_op list \<Rightarrow> cart_state" where
  "run_ops ops = foldl apply_op initialState ops"

section \<open>Object ids\<close>

text \<open>
  An ObjectId is held by its canonical text, 24 lowercase hexadecimal digits, which is
  what \<open>toString\<close> prints.

  The request validator \<open>isMongoId\<close> accepts a string of length 24 that \<open>isHexadecimal\<close>
  accepts, and \<open>isHexadecimal\<close> matches \<open>/^(0x|0h)?[0-9A-F]+$/i\<close>: hexadecimal digits of
  either case, after an optional prefix \<open>0x\<close> or \<open>0h\<close>.

  A query and a document cast the string they are given to an ObjectId. The cast reads
  24 hexadecimal digits of either case and fails (\<open>None\<close>, a CastError) on anything else,
  so also on a string that owes its validity to the prefix.
\<close>

datatype objectid = ObjectId string

fun toString :: "objectid \<Rightarrow> string" where
  "toString (ObjectId s) = s"

definition isHexDigit :: "char \<Rightarrow> bool" where
  "isHexDigit c = (c \<in> set ''0123456789abcdefABCDEF'')"

definition isHexadecimal :: "string \<Rightarrow> bool" where
  "isHexadecimal s =
     ((s \<noteq> [] \<and> list_all isHexDigit s)
      \<or> (take 2 s \<in> set [''0x'', ''0X'', ''0h'', ''0H'']
          \<and> drop 2 s \<noteq> [] \<and> list_all isHexDigit (drop 2 s)))"

definition isMongoId :: "string \<Rightarrow> bool" where
  "isMongoId s = (isHexadecimal s \<and> length s = 24)"

definition lowerHex :: "char \<Rightarrow> char" where
  "lowerHex c =
     (if c = CHR ''A'' then CHR ''a'' else if c = CHR ''B'' then CHR ''b''
      else if c = CHR ''C'' then CHR ''c'' else if c = CHR ''D'' then CHR ''d''
      else if c = CHR ''E'' then CHR ''e'' else if c = CHR ''F'' then CHR ''f''
      else c)"

definition castObjectId :: "string \<Rightarrow> objectid option" where
  "castObjectId s =
     (if length s = 24 \<and> list_all isHexDigit s then Some (ObjectId (map lowerHex s))
      else None)"

section \<open>Booking model (src/models/Booking.js)\<close>

text \<open>
  The fields of a line and of a booking are typed, so the \<open>required\<close>,
  \<open>Number.isInteger\<close> and \<open>Number.isFinite\<close> validators hold by construction; the
  remaining validators are \<open>validateBooking\<close>. An id is kept as the string the document
  was built from, and is valid when it casts to an ObjectId. Timestamps and the
  document's own id are left out.
\<close>

record booking_line =
  bl_productId :: string
  bl_quantity :: int
  bl_price :: rat

record booking =
  b_userId :: string
  b_products :: "booking_line list"
  b_totalAmount :: "rat option"
  b_status :: string

definition validLine :: "booking_line \<Rightarrow> bool" where
  "validLine l =
     (castObjectId (bl_productId l) \<noteq> None \<and> bl_quantity l \<ge> 1 \<and> bl_price l \<ge> 0)"

definition validateBooking :: "booking \<Rightarrow> bool" where
  "validateBooking b =
     (castObjectId (b_userId b) \<noteq> None
      \<and> list_all validLine (b_products b)
      \<and> length (b_products b) > 0
      \<and> (case b_totalAmount b of None \<Rightarrow> True | Some v \<Rightarrow> v \<ge> 0)
      \<and> b_status b \<in> set [''pending'', ''confirmed'', ''completed'', ''cancelled''])"

text \<open>The \<open>pre('save')\<close> middleware.\<close>

definition preSave :: "booking \<Rightarrow> booking" where
  "preSave b =
     (if length (b_products b) > 0
      then b\<lparr>b_totalAmount :=
               Some (foldl (\<lambda>total line. total + bl_price line * of_int (bl_quantity line))
                       0 (b_products b))\<rparr>
      else b)"

text \<open>
  \<open>save\<close>: Mongoose validates the document first, then runs the \<open>pre('save')\<close>
  middleware of the schema, then writes the document to the collection. A document that
  fails validation is not written.
\<close>

datatype save_error = ValidationError

definition save :: "booking \<Rightarrow> booking list \<Rightarrow> save_error + (booking \<times> booking list)" where
  "save b coll =
     (if \<not> validateBooking b then Inl ValidationError
      else let b' = preSave b in Inr (b', coll @ [b']))"

text \<open>\<open>new Booking({userId, products})\<close>: no total yet, the status takes its default.\<close>

definition newBooking :: "string \<Rightarrow> booking_line list \<Rightarrow> booking" where
  "newBooking uid lines =
     \<lparr>b_userId = uid, b_products = lines, b_totalAmount = None, b_status = ''pending''\<rparr>"

section \<open>Booking service (src/routes/user.js, POST /bookings)\<close>

text \<open>
  A catalog document (the Product model, whose schema is found in
  src/models/Contact.js). The handler reads its \<open>_id\<close>, \<open>price\<close> and \<open>inStock\<close>; the other
  fields of the schema are left out.
\<close>

record product_doc =
  doc_id :: objectid
  doc_price :: rat
  inStock :: bool

text \<open>
  A line of the request body. The client also sends a price per line and a total; the
  body keeps them so that the handler can be seen not to read them.
\<close>

record order_product =
  op_productId :: string
  op_quantity :: int
  op_price :: "rat option"

record booking_request =
  rq_products :: "order_product list"
  rq_totalAmount :: "rat option"

datatype error_code = VALIDATION_ERROR | PRODUCTS_NOT_AVAILABLE | BOOKING_CREATE_ERROR

datatype response = Created booking | Failure nat error_code

record server_state =
  catalog :: "product_doc list"
  bookings :: "booking list"

text \<open>
  The validation chain of the route. \<open>isInt({ min: 1 })\<close> tests the decimal text of the
  number, and a number from \<open>10^21\<close> on prints in exponent notation, which is not the text
  of an integer.
\<close>

definition validRequest :: "booking_request \<Rightarrow> bool" where
  "validRequest req =
     (length (rq_products req) \<ge> 1
      \<and> list_all (\<lambda>p. isMongoId (op_productId p)) (rq_products req)
      \<and> list_all (\<lambda>p. op_quantity p \<ge> 1 \<and> op_quantity p < 10 ^ 21) (rq_products req))"

text \<open>
  \<open>Product.find({ _id: { $in: productIds }, inStock: true })\<close>. The query casts the ids;
  where one of them does not cast, it throws (\<open>None\<close>).
\<close>

definition Product_find :: "string list \<Rightarrow> product_doc list \<Rightarrow> product_doc list option" where
  "Product_find productIds coll =
     (case those (map castObjectId productIds) of
        None \<Rightarrow> None
      | Some ids \<Rightarrow> Some (filter (\<lambda>p. doc_id p \<in> set ids \<and> inStock p) coll))"

text \<open>
  The lines of the booking, priced from the fetched products. Where \<open>find\<close> yields
  \<open>undefined\<close>, reading \<open>product.price\<close> throws: the result is \<open>None\<close>.
\<close>

definition bookingProducts ::
  "product_doc list \<Rightarrow> order_product list \<Rightarrow> booking_line list option" where
  "bookingProducts existingProducts products =
     those (map (\<lambda>orderProduct.
        map_option
          (\<lambda>product. \<lparr>bl_productId = op_productId orderProduct,
                       bl_quantity = op_quantity orderProduct,
                       bl_price = doc_price product\<rparr>)
          (find (\<lambda>p. toString (doc_id p) = op_productId orderProduct) existingProducts))
        products)"

text \<open>
  The handler, for the authenticated user \<open>userId\<close>. Every exception inside the \<open>try\<close>
  ends in the \<open>catch\<close>, which answers 500 with \<open>BOOKING_CREATE_ERROR\<close>. Storage is taken
  to be available, and \<open>populate\<close>, which only expands the product references of the
  response, is left out.
\<close>

definition postBookings ::
  "string \<Rightarrow> booking_request \<Rightarrow> server_state \<Rightarrow> response \<times> server_state" where
  "postBookings userId req st =
     (if \<not> validRequest req then (Failure 400 VALIDATION_ERROR, st)
      else
        let products = rq_products req;
            productIds = map op_productId products
        in case Product_find productIds (catalog st) of
             None \<Rightarrow> (Failure 500 BOOKING_CREATE_ERROR, st)
           | Some existingProducts \<Rightarrow>
               if length existingProducts \<noteq> length productIds
               then (Failure 400 PRODUCTS_NOT_AVAILABLE, st)
               else
                 case bookingProducts existingProducts products of
                   None \<Rightarrow> (Failure 500 BOOKING_CREATE_ERROR, st)
                 | Some lines \<Rightarrow>
                     (case save (newBooking userId lines) (bookings st) of
                        Inl e \<Rightarrow> (Failure 500 BOOKING_CREATE_ERROR, st)
                      | Inr (booking, coll) \<Rightarrow>
                          (Created booking, st\<lparr>bookings := coll\<rparr>)))"

section \<open>Example data\<close>

text \<open>
  The cart of the specification's scenario (two of product A at 10.00, one of product B at
  15.50), two booking services, one that accepts and one that rejects, and a catalog with
  three products in stock and one out of stock.
\<close>

definition productA :: product where
  "productA = \<lparr>p_id = ''A'', p_name = ''Product A'', p_image = ''a.png'',
                p_category = ''food'', p_price = 10\<rparr>"

definition productB :: product where
  "productB = \<lparr>p_id = ''B'', p_name = ''Product B'', p_image = ''b.png'',
                p_category = ''tools'', p_price = 31 / 2\<rparr>"

definition cartAB :: cart_state where
  "cartAB =
     \<lparr>items = [\<lparr>product = productA, quantity = 2, price = 10\<rparr>,
               \<lparr>product = productB, quantity = 1, price = 31 / 2\<rparr>],
      totalItems = 3, totalAmount = 71 / 2, loading = False, error = Some ''earlier failure''\<rparr>"

definition apiAccepts :: "booking_data \<Rightarrow> api_error + string api_response" where
  "apiAccepts bookingData = Inr \<lparr>resp_data = ''Booking created successfully''\<rparr>"

definition apiRejects :: "booking_data \<Rightarrow> api_error + string api_response" where
  "apiRejects bookingData =
     Inl \<lparr>response_error_message = Some ''One or more products are not available''\<rparr>"

definition idA :: string where "idA = ''aaaaaaaaaaaaaaaaaaaaaaaa''"

definition idB :: string where "idB = ''bbbbbbbbbbbbbbbbbbbbbbbb''"

definition idC :: string where "idC = ''cccccccccccccccccccccccc''"

definition idD :: string where "idD = ''dddddddddddddddddddddddd''"

definition userE :: string where "userE = ''eeeeeeeeeeeeeeeeeeeeeeee''"

definition exampleCatalog :: "product_doc list" where
  "exampleCatalog =
     [\<lparr>doc_id = ObjectId idA, doc_price = 10, inStock = True\<rparr>,
      \<lparr>doc_id = ObjectId idB, doc_price = 31 / 2, inStock = True\<rparr>,
      \<lparr>doc_id = ObjectId idC, doc_price = 2599 / 100, inStock = True\<rparr>,
      \<lparr>doc_id = ObjectId idD, doc_price = 1599 / 100, inStock = False\<rparr>]"

definition exampleServer :: server_state where
  "exampleServer = \<lparr>catalog = exampleCatalog, bookings = []\<rparr>"

definition duplicateRequest :: booking_request where
  "duplicateRequest =
     \<lparr>rq_products = [\<lparr>op_productId = idA, op_quantity = 1, op_price = None\<rparr>,
                     \<lparr>op_productId = idA, op_quantity = 2, op_price = None\<rparr>],
      rq_totalAmount = None\<rparr>"

definition tamperedRequest :: booking_request where
  "tamperedRequest =
     \<lparr>rq_products = [\<lparr>op_productId = idC, op_quantity = 1, op_price = Some (1 / 100)\<rparr>],
      rq_totalAmount = Some (1 / 100)\<rparr>"

definition twoLineRequest :: booking_request where
  "twoLineRequest =
     \<lparr>rq_products = [\<lparr>op_productId = idA, op_quantity = 2, op_price = Some 10\<rparr>,
                     \<lparr>op_productId = idB, op_quantity = 1, op_price = Some (31 / 2)\<rparr>],
      rq_totalAmount = Some 0\<rparr>"

definition testBooking :: booking where
  "testBooking =
     \<lparr>b_userId = userE,
      b_products = [\<lparr>bl_productId = idA, bl_quantity = 2, bl_price = 10\<rparr>,
                    \<lparr>bl_productId = idB, bl_quantity = 1, bl_price = 31 / 2\<rparr>],
      b_totalAmount = Some 0,
      b_status = ''pending''\<rparr>"

section \<open>Auxiliary facts\<close>

lemma foldl_add_sum_list:
  fixes a :: "'b::monoid_add"
  shows "foldl (\<lambda>acc x. acc + f x) a xs = a + sum_list (map f xs)"
  by (induction xs arbitrary: a) (simp_all add: add.assoc)

lemma sumQuantity_sum_list: "sumQuantity xs = sum_list (map quantity xs)"
  by (simp add: sumQuantity_def foldl_add_sum_list)

lemma sumAmount_sum_list:
  "sumAmount xs = sum_list (map (\<lambda>l. price l * of_int (quantity l)) xs)"
  by (simp add: sumAmount_def foldl_add_sum_list)

lemma toFixed2_zero: "toFixed2 0 = 0"
proof -
  have "\<lfloor>1 / 2 :: rat\<rfloor> = 0" by (simp add: floor_eq_iff)
  then show ?thesis by (simp add: toFixed2_def)
qed

lemma toFixed2_cents: "\<exists>n::int. toFixed2 x = of_int n / 100"
  unfolding toFixed2_def
  by (metis minus_divide_left of_int_minus)

lemma toFixed2_close: "\<bar>toFixed2 x - x\<bar> \<le> 1 / 200"
proof -
  have r: "\<bar>of_int \<lfloor>y * 100 + 1 / 2\<rfloor> / 100 - y\<bar> \<le> 1 / 200" for y :: rat
  proof -
    define n where "n = \<lfloor>y * 100 + 1 / 2\<rfloor>"
    have a: "of_int n \<le> y * 100 + 1 / 2" unfolding n_def by (rule of_int_floor_le)
    have b: "y * 100 + 1 / 2 < of_int n + 1" unfolding n_def by linarith
    from a b have "\<bar>of_int n / 100 - y\<bar> \<le> 1 / 200" by linarith
    then show ?thesis by (simp only: n_def)
  qed
  show ?thesis
  proof (cases "x < 0")
    case True
    have "toFixed2 x - x = - (of_int \<lfloor>(- x) * 100 + 1 / 2\<rfloor> / 100 - (- x))"
      using True by (simp add: toFixed2_def)
    then show ?thesis using r[of "- x"] by (simp only: abs_minus_cancel)
  next
    case False
    then show ?thesis using r[of x] by (simp add: toFixed2_def)
  qed
qed

lemma findIndex_from_none:
  "\<forall>x\<in>set xs. \<not> P x \<Longrightarrow> findIndex_from k P xs = - 1"
  by (induction xs arbitrary: k) simp_all

lemma findIndex_from_some:
  "\<exists>x\<in>set xs. P x \<Longrightarrow> int k \<le> findIndex_from k P xs"
proof (induction xs arbitrary: k)
  case Nil
  then show ?case by simp
next
  case (Cons x xs)
  show ?case
  proof (cases "P x")
    case True
    then show ?thesis by simp
  next
    case False
    with Cons.prems have "\<exists>y\<in>set xs. P y" by simp
    from Cons.IH[OF this, of "Suc k"] False show ?thesis by simp
  qed
qed

lemma findIndex_nonneg_iff: "findIndex P xs \<ge> 0 \<longleftrightarrow> (\<exists>x\<in>set xs. P x)"
proof
  assume "findIndex P xs \<ge> 0"
  then show "\<exists>x\<in>set xs. P x"
    using findIndex_from_none[of xs P 0] by (auto simp: findIndex_def)
next
  assume "\<exists>x\<in>set xs. P x"
  then show "findIndex P xs \<ge> 0"
    using findIndex_from_some[of xs P 0] by (simp add: findIndex_def)
qed

lemma findIndex_from_split:
  "\<forall>y\<in>set pre. \<not> P y \<Longrightarrow> P l \<Longrightarrow>
   findIndex_from k P (pre @ l # post) = int (k + length pre)"
  by (induction pre arbitrary: k) simp_all

lemma map_index_from_before:
  "j < k \<Longrightarrow>
   map_index_from k (\<lambda>item index. if int index = int j then f item else item) xs = xs"
  by (induction xs arbitrary: k) simp_all

lemma map_index_from_split:
  "map_index_from k (\<lambda>item index. if int index = int (k + length pre) then f item else item)
     (pre @ l # post) = pre @ f l # post"
proof (induction pre arbitrary: k)
  case Nil
  show ?case using map_index_from_before[of k "Suc k" f post] by simp
next
  case (Cons x pre)
  from Cons.IH[of "Suc k"] show ?case by simp
qed

lemma map_index_from_ids:
  fixes xs :: "cart_line list"
  shows "map (\<lambda>l. p_id (product l))
     (map_index_from k (\<lambda>item index. if c index then item\<lparr>quantity := g item\<rparr> else item) xs)
   = map (\<lambda>l. p_id (product l)) xs"
  by (induction xs arbitrary: k) simp_all

section \<open>The reducer\<close>

lemma addToCart_Some: "addToCart p (Some q) s = cartReducer s (ADD_ITEM p q)"
  by (simp add: addToCart_def)

lemma items_add_absent:
  assumes "\<forall>l\<in>set (items s). p_id (product l) \<noteq> p_id p"
  shows "items (cartReducer s (ADD_ITEM p q)) =
           items s @ [\<lparr>product = p, quantity = q, price = p_price p\<rparr>]"
proof -
  have "\<not> findIndex (\<lambda>item. p_id (product item) = p_id p) (items s) \<ge> 0"
    using assms by (simp add: findIndex_nonneg_iff)
  then show ?thesis by (simp add: Let_def)
qed

lemma items_add_present:
  assumes "items s = pre @ l # post"
    and "\<forall>y\<in>set pre. p_id (product y) \<noteq> p_id p"
    and "p_id (product l) = p_id p"
  shows "items (cartReducer s (ADD_ITEM p q)) = pre @ l\<lparr>quantity := quantity l + q\<rparr> # post"
proof -
  let ?P = "\<lambda>item. p_id (product item) = p_id p"
  have ix: "findIndex ?P (items s) = int (0 + length pre)"
    unfolding findIndex_def assms(1)
    by (rule findIndex_from_split) (use assms in simp_all)
  then have "findIndex ?P (items s) \<ge> 0" by simp
  then have "items (cartReducer s (ADD_ITEM p q)) =
      map_index (\<lambda>item index. if int index = int (0 + length pre)
         then item\<lparr>quantity := quantity item + q\<rparr> else item) (pre @ l # post)"
    using ix assms(1) by (simp add: Let_def)
  then show ?thesis
    unfolding map_index_def by (simp only: map_index_from_split)
qed

lemma add_totals:
  "totalItems (cartReducer s (ADD_ITEM p q)) =
     sum_list (map quantity (items (cartReducer s (ADD_ITEM p q))))"
  "totalAmount (cartReducer s (ADD_ITEM p q)) =
     toFixed2 (sum_list (map (\<lambda>l. price l * of_int (quantity l))
       (items (cartReducer s (ADD_ITEM p q)))))"
  by (simp_all add: Let_def sumQuantity_sum_list sumAmount_sum_list)

lemma remove_totals:
  "totalItems (cartReducer s (REMOVE_ITEM i)) =
     sum_list (map quantity (items (cartReducer s (REMOVE_ITEM i))))"
  "totalAmount (cartReducer s (REMOVE_ITEM i)) =
     toFixed2 (sum_list (map (\<lambda>l. price l * of_int (quantity l))
       (items (cartReducer s (REMOVE_ITEM i)))))"
  by (simp_all add: Let_def sumQuantity_sum_list sumAmount_sum_list)

lemma update_totals:
  "totalItems (cartReducer s (UPDATE_QUANTITY i q)) =
     sum_list (map quantity (items (cartReducer s (UPDATE_QUANTITY i q))))"
  "totalAmount (cartReducer s (UPDATE_QUANTITY i q)) =
     toFixed2 (sum_list (map (\<lambda>l. price l * of_int (quantity l))
       (items (cartReducer s (UPDATE_QUANTITY i q)))))"
  by (simp_all add: Let_def sumQuantity_sum_list sumAmount_sum_list)

lemma initial_totals:
  "totalItems initialState = sum_list (map quantity (items initialState))"
  "totalAmount initialState =
     toFixed2 (sum_list (map (\<lambda>l. price l * of_int (quantity l)) (items initialState)))"
  by (simp_all add: initialState_def toFixed2_zero)

lemma apply_op_totals:
  "totalItems (apply_op s x) = sum_list (map quantity (items (apply_op s x)))"
  "totalAmount (apply_op s x) =
     toFixed2 (sum_list (map (\<lambda>l. price l * of_int (quantity l)) (items (apply_op s x))))"
  by (cases x; simp only: apply_op.simps addToCart_def removeFromCart_def updateQuantity_def
        add_totals remove_totals update_totals)+

lemma filter_id_distinct:
  fixes l :: cart_line
  assumes "distinct (map (\<lambda>l. p_id (product l)) (pre @ l # post))"
    and "p_id (product l) = i"
  shows "(\<forall>y\<in>set pre. p_id (product y) \<noteq> i) \<and> (\<forall>y\<in>set post. p_id (product y) \<noteq> i)"
  using assms by (auto simp: image_iff)

lemma items_updateQuantity:
  "items (updateQuantity pid n s) =
      filter (\<lambda>item. quantity item > 0)
        (map (\<lambda>item. if p_id (product item) = pid then item\<lparr>quantity := max 0 n\<rparr> else item)
           (items s))"
  by (simp add: updateQuantity_def Let_def)

lemma filter_updated_lines:
  fixes xs :: "cart_line list"
  shows "filter (\<lambda>l'. p_id (product l') = pid)
     (filter (\<lambda>item. quantity item > 0)
        (map (\<lambda>item. if p_id (product item) = pid then item\<lparr>quantity := m\<rparr> else item) xs)) =
   (if m > 0 then map (\<lambda>l'. l'\<lparr>quantity := m\<rparr>) (filter (\<lambda>l'. p_id (product l') = pid) xs)
    else [])"
  by (induction xs) simp_all

text \<open>
  The carts that the three operations reach from the initial state hold at most one line
  per product id.
\<close>

lemma ids_add:
  "map (\<lambda>l. p_id (product l)) (items (cartReducer s (ADD_ITEM p q))) =
     (if \<exists>l\<in>set (items s). p_id (product l) = p_id p
      then map (\<lambda>l. p_id (product l)) (items s)
      else map (\<lambda>l. p_id (product l)) (items s) @ [p_id p])"
proof (cases "\<exists>l\<in>set (items s). p_id (product l) = p_id p")
  case True
  then have "findIndex (\<lambda>item. p_id (product item) = p_id p) (items s) \<ge> 0"
    by (simp add: findIndex_nonneg_iff)
  then have "items (cartReducer s (ADD_ITEM p q)) =
      map_index_from 0 (\<lambda>item index.
         if int index = findIndex (\<lambda>item. p_id (product item) = p_id p) (items s)
         then item\<lparr>quantity := quantity item + q\<rparr> else item) (items s)"
    by (simp add: Let_def map_index_def)
  with True show ?thesis by (simp only: map_index_from_ids if_True)
next
  case False
  then have "\<forall>l\<in>set (items s). p_id (product l) \<noteq> p_id p" by simp
  from items_add_absent[OF this, of q] False show ?thesis by simp
qed

lemma distinct_add:
  assumes "distinct (map (\<lambda>l. p_id (product l)) (items s))"
  shows "distinct (map (\<lambda>l. p_id (product l)) (items (cartReducer s (ADD_ITEM p q))))"
  unfolding ids_add using assms by (auto simp: image_iff)

lemma distinct_remove:
  assumes "distinct (map (\<lambda>l. p_id (product l)) (items s))"
  shows "distinct (map (\<lambda>l. p_id (product l)) (items (cartReducer s (REMOVE_ITEM i))))"
  using assms by (simp add: Let_def distinct_map_filter)

lemma distinct_update:
  assumes "distinct (map (\<lambda>l. p_id (product l)) (items s))"
  shows "distinct (map (\<lambda>l. p_id (product l)) (items (cartReducer s (UPDATE_QUANTITY i q))))"
proof -
  let ?g = "\<lambda>item. if p_id (product item) = i then item\<lparr>quantity := max 0 q\<rparr> else item"
  have "map (\<lambda>l. p_id (product l)) (map ?g xs) = map (\<lambda>l. p_id (product l)) xs"
    for xs :: "cart_line list"
    by (induction xs) simp_all
  with assms have "distinct (map (\<lambda>l. p_id (product l)) (map ?g (items s)))"
    by (simp only:)
  then have "distinct (map (\<lambda>l. p_id (product l))
      (filter (\<lambda>item. quantity item > 0) (map ?g (items s))))"
    by (rule distinct_map_filter)
  then show ?thesis by (simp add: Let_def)
qed

lemma run_ops_distinct: "distinct (map (\<lambda>l. p_id (product l)) (items (run_ops ops)))"
proof (induction ops rule: rev_induct)
  case Nil
  show ?case by (simp add: run_ops_def initialState_def)
next
  case (snoc x xs)
  then have d: "distinct (map (\<lambda>l. p_id (product l)) (items (foldl apply_op initialState xs)))"
    by (simp add: run_ops_def)
  show ?case
  proof (cases x)
    case (AddToCart p qty)
    then show ?thesis
      unfolding run_ops_def using distinct_add[OF d] by (simp add: addToCart_def)
  next
    case (RemoveFromCart i)
    then show ?thesis
      unfolding run_ops_def using distinct_remove[OF d] by (simp add: removeFromCart_def)
  next
    case (UpdateQuantity i q)
    then show ?thesis
      unfolding run_ops_def using distinct_update[OF d] by (simp add: updateQuantity_def)
  qed
qed

section \<open>Cart totals\<close>

text \<open>
  C4. After any sequence of \<open>addToCart\<close>, \<open>removeFromCart\<close> and \<open>updateQuantity\<close> calls
  on the initial empty cart, \<open>totalItems\<close> is the sum of the quantities of the lines and
  \<open>totalAmount\<close> is the sum of price times quantity over the lines, rounded to two decimal
  places: a whole number of cents, at most half a cent away from the sum.
\<close>

theorem cart_totals_recomputed:
  "totalItems (run_ops ops) = sum_list (map quantity (items (run_ops ops)))
   \<and> totalAmount (run_ops ops) =
       toFixed2 (sum_list (map (\<lambda>l. price l * of_int (quantity l)) (items (run_ops ops))))
   \<and> (\<exists>n::int. totalAmount (run_ops ops) = of_int n / 100)
   \<and> \<bar>totalAmount (run_ops ops)
        - sum_list (map (\<lambda>l. price l * of_int (quantity l)) (items (run_ops ops)))\<bar> \<le> 1 / 200"
proof -
  have tot: "totalItems (run_ops ops) = sum_list (map quantity (items (run_ops ops)))
    \<and> totalAmount (run_ops ops) =
       toFixed2 (sum_list (map (\<lambda>l. price l * of_int (quantity l)) (items (run_ops ops))))"
  proof (cases ops rule: rev_cases)
    case Nil
    then show ?thesis by (simp add: run_ops_def initial_totals)
  next
    case (snoc ys y)
    then show ?thesis by (simp add: run_ops_def apply_op_totals)
  qed
  let ?S = "sum_list (map (\<lambda>l. price l * of_int (quantity l)) (items (run_ops ops)))"
  from tot have eq: "totalAmount (run_ops ops) = toFixed2 ?S" by (rule conjunct2)
  have cents: "\<exists>n::int. totalAmount (run_ops ops) = of_int n / 100"
    unfolding eq by (rule toFixed2_cents)
  have close: "\<bar>totalAmount (run_ops ops) - ?S\<bar> \<le> 1 / 200"
    unfolding eq by (rule toFixed2_close)
  from tot have items: "totalItems (run_ops ops) = sum_list (map quantity (items (run_ops ops)))"
    by (rule conjunct1)
  from items eq cents close show ?thesis by (intro conjI)
qed

section \<open>Adding to the cart\<close>

text \<open>
  C5. In a cart with at most one line per product id, \<open>addToCart\<close> for a product that has
  a line replaces that line, in place, by the same line with the added quantity on top of
  the old one: product snapshot and price stay as they were, and the cart still has
  exactly one line for the id. For a product without a line it appends one line, priced
  at \<open>product.price\<close>. Adding a product that is absent with quantity \<open>q\<close> and then a product
  of the same id with quantity \<open>b\<close> leaves one line, of quantity \<open>q + b\<close>, at the first price.
\<close>

theorem addToCart_merge_or_append:
  assumes "distinct (map (\<lambda>l. p_id (product l)) (items s))"
  shows "(\<forall>pre l post. items s = pre @ l # post \<and> p_id (product l) = p_id p \<longrightarrow>
            items (addToCart p (Some q) s) = pre @ l\<lparr>quantity := quantity l + q\<rparr> # post
            \<and> length (filter (\<lambda>l'. p_id (product l') = p_id p)
                 (items (addToCart p (Some q) s))) = 1)
       \<and> ((\<forall>l\<in>set (items s). p_id (product l) \<noteq> p_id p) \<longrightarrow>
            items (addToCart p (Some q) s) =
              items s @ [\<lparr>product = p, quantity = q, price = p_price p\<rparr>]
            \<and> (\<forall>(p'::product) b. p_id p' = p_id p \<longrightarrow>
                 items (addToCart p' (Some b) (addToCart p (Some q) s)) =
                   items s @ [\<lparr>product = p, quantity = q + b, price = p_price p\<rparr>]))"
proof (intro conjI allI impI)
  fix pre l post
  assume h: "items s = pre @ l # post \<and> p_id (product l) = p_id p"
  then have split: "items s = pre @ l # post" and idl: "p_id (product l) = p_id p" by simp_all
  from assms split have "distinct (map (\<lambda>l. p_id (product l)) (pre @ l # post))" by simp
  from filter_id_distinct[OF this idl]
  have npre: "\<forall>y\<in>set pre. p_id (product y) \<noteq> p_id p"
    and npost: "\<forall>y\<in>set post. p_id (product y) \<noteq> p_id p" by simp_all
  show eq: "items (addToCart p (Some q) s) = pre @ l\<lparr>quantity := quantity l + q\<rparr> # post"
    unfolding addToCart_def using items_add_present[OF split npre idl] by simp
  have "filter (\<lambda>l'. p_id (product l') = p_id p) (pre @ l\<lparr>quantity := quantity l + q\<rparr> # post)
          = [l\<lparr>quantity := quantity l + q\<rparr>]"
    using npre npost idl by (simp add: filter_empty_conv)
  then show "length (filter (\<lambda>l'. p_id (product l') = p_id p)
                 (items (addToCart p (Some q) s))) = 1"
    unfolding eq by simp
next
  assume absent: "\<forall>l\<in>set (items s). p_id (product l) \<noteq> p_id p"
  show "items (addToCart p (Some q) s) =
          items s @ [\<lparr>product = p, quantity = q, price = p_price p\<rparr>]"
    unfolding addToCart_def using items_add_absent[OF absent] by simp
next
  fix p' :: product and b
  assume absent: "\<forall>l\<in>set (items s). p_id (product l) \<noteq> p_id p"
    and same: "p_id p' = p_id p"
  let ?s1 = "addToCart p (Some q) s"
  let ?new = "\<lparr>product = p, quantity = q, price = p_price p\<rparr>"
  have first: "items ?s1 = items s @ ?new # []"
    unfolding addToCart_def using items_add_absent[OF absent] by simp
  have npre: "\<forall>y\<in>set (items s). p_id (product y) \<noteq> p_id p'"
    using absent same by simp
  have idn: "p_id (product ?new) = p_id p'" using same by simp
  have step: "items (cartReducer ?s1 (ADD_ITEM p' b)) =
      items s @ ?new\<lparr>quantity := quantity ?new + b\<rparr> # []"
    by (rule items_add_present[OF first npre idn])
  have upd: "?new\<lparr>quantity := quantity ?new + b\<rparr> =
      \<lparr>product = p, quantity = q + b, price = p_price p\<rparr>" by simp
  show "items (addToCart p' (Some b) ?s1) =
          items s @ [\<lparr>product = p, quantity = q + b, price = p_price p\<rparr>]"
    by (simp only: addToCart_Some[of p' b ?s1] step upd)
qed

theorem addToCart_merge_or_append_witness:
  "distinct (map (\<lambda>l. p_id (product l)) (items cartAB))
   \<and> items (addToCart (productA\<lparr>p_price := 12\<rparr>) (Some 3) cartAB) =
       [\<lparr>product = productA, quantity = 5, price = 10\<rparr>,
        \<lparr>product = productB, quantity = 1, price = 31 / 2\<rparr>]
   \<and> length (filter (\<lambda>l. p_id (product l) = ''A'')
         (items (addToCart (productA\<lparr>p_price := 12\<rparr>) (Some 3) cartAB))) = 1
   \<and> items (addToCart productA (Some 2) initialState) =
       [\<lparr>product = productA, quantity = 2, price = 10\<rparr>]
   \<and> items (addToCart (productA\<lparr>p_price := 12\<rparr>) (Some 3)
         (addToCart productA (Some 2) initialState)) =
       [\<lparr>product = productA, quantity = 5, price = 10\<rparr>]"
proof -
  let ?lA = "\<lparr>product = productA, quantity = 2, price = 10\<rparr>"
  let ?lB = "\<lparr>product = productB, quantity = 1, price = 31 / 2\<rparr>"
  let ?A' = "productA\<lparr>p_price := 12\<rparr>"
  have d: "distinct (map (\<lambda>l. p_id (product l)) (items cartAB))"
    by (simp add: cartAB_def productA_def productB_def)
  have d0: "distinct (map (\<lambda>l. p_id (product l)) (items initialState))"
    by (simp add: initialState_def)
  have split: "items cartAB = [] @ ?lA # [?lB] \<and> p_id (product ?lA) = p_id ?A'"
    by (simp add: cartAB_def productA_def)
  from addToCart_merge_or_append[OF d, of ?A' 3] split
  have merged: "items (addToCart ?A' (Some 3) cartAB) =
        [] @ ?lA\<lparr>quantity := quantity ?lA + 3\<rparr> # [?lB]
      \<and> length (filter (\<lambda>l'. p_id (product l') = p_id ?A')
           (items (addToCart ?A' (Some 3) cartAB))) = 1"
    by blast
  have absent: "\<forall>l\<in>set (items initialState). p_id (product l) \<noteq> p_id productA"
    by (simp add: initialState_def)
  have same: "p_id ?A' = p_id productA" by simp
  from addToCart_merge_or_append[OF d0, of productA 2] absent same
  have twice: "items (addToCart productA (Some 2) initialState) =
        items initialState @ [\<lparr>product = productA, quantity = 2, price = p_price productA\<rparr>]
      \<and> items (addToCart ?A' (Some 3) (addToCart productA (Some 2) initialState)) =
        items initialState @ [\<lparr>product = productA, quantity = 2 + 3, price = p_price productA\<rparr>]"
    by blast
  have pa: "p_price productA = 10" "p_id productA = ''A''" by (simp_all add: productA_def)
  from merged have m1: "items (addToCart ?A' (Some 3) cartAB) =
       [\<lparr>product = productA, quantity = 5, price = 10\<rparr>, ?lB]"
    by simp
  from conjunct2[OF merged] have m2: "length (filter (\<lambda>l. p_id (product l) = ''A'')
         (items (addToCart ?A' (Some 3) cartAB))) = 1"
    by (simp add: pa)
  from twice have t1: "items (addToCart productA (Some 2) initialState) =
       [\<lparr>product = productA, quantity = 2, price = 10\<rparr>]"
    by (simp add: pa initialState_def)
  from twice have t2: "items (addToCart ?A' (Some 3)
         (addToCart productA (Some 2) initialState)) =
       [\<lparr>product = productA, quantity = 5, price = 10\<rparr>]"
    by (simp add: pa initialState_def)
  from d m1 m2 t1 t2 show ?thesis by (intro conjI)
qed

text \<open>
  C10. For a product without a line in the cart, \<open>addToCart\<close> appends a line whose quantity
  is the quantity given, whatever its sign: nothing clamps it and nothing removes the line.
  All quantities of the new cart are at least 1 exactly when those of the old cart are
  and the quantity given is.
\<close>

theorem addToCart_new_line_quantity:
  assumes "\<forall>l\<in>set (items s). p_id (product l) \<noteq> p_id p"
  shows "items (addToCart p (Some q) s) =
           items s @ [\<lparr>product = p, quantity = q, price = p_price p\<rparr>]
         \<and> ((\<forall>l\<in>set (items (addToCart p (Some q) s)). quantity l \<ge> 1) \<longleftrightarrow>
              (q \<ge> 1 \<and> (\<forall>l\<in>set (items s). quantity l \<ge> 1)))"
proof -
  have eq: "items (addToCart p (Some q) s) =
           items s @ [\<lparr>product = p, quantity = q, price = p_price p\<rparr>]"
    unfolding addToCart_Some by (rule items_add_absent[OF assms])
  show ?thesis unfolding eq by auto
qed

theorem addToCart_new_line_quantity_witness:
  "filter (\<lambda>l. p_id (product l) = p_id productA) (items initialState) = []
   \<and> items (addToCart productA (Some 0) initialState) =
       [\<lparr>product = productA, quantity = 0, price = 10\<rparr>]
   \<and> items (addToCart productA (Some (- 3)) initialState) =
       [\<lparr>product = productA, quantity = - 3, price = 10\<rparr>]
   \<and> \<not> (\<forall>l\<in>set (items (addToCart productA (Some (- 3)) initialState)). quantity l \<ge> 1)"
proof -
  have a: "\<forall>l\<in>set (items initialState). p_id (product l) \<noteq> p_id productA"
    by (simp add: initialState_def)
  have pa: "p_price productA = 10" by (simp add: productA_def)
  have i0: "items initialState = []" by (simp add: initialState_def)
  from addToCart_new_line_quantity[OF a, of 0]
  have z: "items (addToCart productA (Some 0) initialState) =
       [\<lparr>product = productA, quantity = 0, price = 10\<rparr>]"
    by (simp add: pa i0)
  note neg = addToCart_new_line_quantity[OF a, of "- 3"]
  from neg have n: "items (addToCart productA (Some (- 3)) initialState) =
       [\<lparr>product = productA, quantity = - 3, price = 10\<rparr>]"
    by (simp add: pa i0)
  from neg have b: "\<not> (\<forall>l\<in>set (items (addToCart productA (Some (- 3)) initialState)).
       quantity l \<ge> 1)"
    by simp
  have f: "filter (\<lambda>l. p_id (product l) = p_id productA) (items initialState) = []"
    by (simp add: i0)
  from f z n b show ?thesis by (intro conjI)
qed

section \<open>Updating a quantity\<close>

text \<open>
  C6. For a cart with a line \<open>l\<close> for the product id, \<open>updateQuantity\<close> with \<open>q\<close> leaves,
  when \<open>max 0 q\<close> is not 0, the line \<open>l\<close> with quantity \<open>max 0 q\<close>, and every line of that
  id has that quantity; when \<open>max 0 q\<close> is 0, no line of that id is left. So it is for
  \<open>q = 0\<close> and \<open>q = -1\<close>.
\<close>

theorem updateQuantity_sets_or_removes:
  assumes "l \<in> set (items s)" and "p_id (product l) = pid"
  shows "(max 0 q \<noteq> 0 \<longrightarrow>
            l\<lparr>quantity := max 0 q\<rparr> \<in> set (items (updateQuantity pid q s))
            \<and> (\<forall>l'\<in>set (items (updateQuantity pid q s)).
                  p_id (product l') = pid \<longrightarrow> quantity l' = max 0 q))
       \<and> (max 0 q = 0 \<longrightarrow>
            (\<forall>l'\<in>set (items (updateQuantity pid q s)). p_id (product l') \<noteq> pid))
       \<and> (\<forall>l'\<in>set (items (updateQuantity pid 0 s)). p_id (product l') \<noteq> pid)
       \<and> (\<forall>l'\<in>set (items (updateQuantity pid (- 1) s)). p_id (product l') \<noteq> pid)
       \<and> filter (\<lambda>l'. p_id (product l') = pid) (items (updateQuantity pid q s)) =
           (if max 0 q = 0 then []
            else map (\<lambda>l'. l'\<lparr>quantity := max 0 q\<rparr>)
                   (filter (\<lambda>l'. p_id (product l') = pid) (items s)))"
proof -
  have flt: "filter (\<lambda>l'. p_id (product l') = pid) (items (updateQuantity pid n s)) =
           (if max 0 n = 0 then []
            else map (\<lambda>l'. l'\<lparr>quantity := max 0 n\<rparr>)
                   (filter (\<lambda>l'. p_id (product l') = pid) (items s)))" for n
  proof -
    have key: "(if 0 < max 0 n then A else []) = (if max 0 n = 0 then [] else A)"
      for A :: "cart_line list"
      by simp
    have "filter (\<lambda>l'. p_id (product l') = pid) (items (updateQuantity pid n s)) =
           (if 0 < max 0 n
            then map (\<lambda>l'. l'\<lparr>quantity := max 0 n\<rparr>)
                   (filter (\<lambda>l'. p_id (product l') = pid) (items s))
            else [])"
      by (simp only: items_updateQuantity filter_updated_lines)
    then show ?thesis by (simp only: key)
  qed
  have gone: "\<forall>l'\<in>set (items (updateQuantity pid n s)). p_id (product l') \<noteq> pid"
    if "max 0 n = 0" for n
  proof -
    from flt[of n]
    have "filter (\<lambda>l'. p_id (product l') = pid) (items (updateQuantity pid n s)) = []"
      by (simp only: if_P[OF that])
    then show ?thesis by (simp only: filter_empty_conv)
  qed
  have kept: "l\<lparr>quantity := max 0 q\<rparr> \<in> set (items (updateQuantity pid q s))
      \<and> (\<forall>l'\<in>set (items (updateQuantity pid q s)).
            p_id (product l') = pid \<longrightarrow> quantity l' = max 0 q)"
    if nz: "max 0 q \<noteq> 0"
  proof -
    let ?F = "filter (\<lambda>l'. p_id (product l') = pid) (items (updateQuantity pid q s))"
    from flt[of q]
    have eq: "?F = map (\<lambda>l'. l'\<lparr>quantity := max 0 q\<rparr>)
                   (filter (\<lambda>l'. p_id (product l') = pid) (items s))"
      by (simp only: if_not_P[OF nz])
    have "l \<in> set (filter (\<lambda>l'. p_id (product l') = pid) (items s))"
      using assms by simp
    then have "l\<lparr>quantity := max 0 q\<rparr> \<in> set ?F" unfolding eq by simp
    then have a: "l\<lparr>quantity := max 0 q\<rparr> \<in> set (items (updateQuantity pid q s))" by simp
    have b: "\<forall>l'\<in>set (items (updateQuantity pid q s)).
            p_id (product l') = pid \<longrightarrow> quantity l' = max 0 q"
    proof (intro ballI impI)
      fix l' assume "l' \<in> set (items (updateQuantity pid q s))" and "p_id (product l') = pid"
      then have "l' \<in> set ?F" by simp
      then obtain x where "l' = x\<lparr>quantity := max 0 q\<rparr>" unfolding eq by auto
      then show "quantity l' = max 0 q" by simp
    qed
    from a b show ?thesis by (rule conjI)
  qed
  have z: "max 0 (0::int) = 0" and m: "max 0 (- 1 :: int) = 0" by simp_all
  from kept gone[of q] gone[OF z] gone[OF m] flt[of q] show ?thesis by blast
qed

theorem updateQuantity_sets_or_removes_witness:
  "\<lparr>product = productA, quantity = 2, price = 10\<rparr> \<in> set (items cartAB)
   \<and> \<lparr>product = productA, quantity = 5, price = 10\<rparr> \<in> set (items (updateQuantity ''A'' 5 cartAB))
   \<and> filter (\<lambda>l'. p_id (product l') = ''A'') (items (updateQuantity ''A'' 0 cartAB)) = []
   \<and> filter (\<lambda>l'. p_id (product l') = ''A'') (items (updateQuantity ''A'' (- 1) cartAB)) = []
   \<and> filter (\<lambda>l'. p_id (product l') = ''A'') (items (updateQuantity ''A'' (- 7) cartAB)) = []"
proof -
  let ?lA = "\<lparr>product = productA, quantity = 2, price = 10\<rparr>"
  have mem: "?lA \<in> set (items cartAB)" by (simp add: cartAB_def)
  have idA: "p_id (product ?lA) = ''A''" by (simp add: productA_def)
  have "max 0 (5::int) \<noteq> 0" by simp
  with updateQuantity_sets_or_removes[OF mem idA, of 5]
  have "?lA\<lparr>quantity := max 0 5\<rparr> \<in> set (items (updateQuantity ''A'' 5 cartAB))" by blast
  then have a: "\<lparr>product = productA, quantity = 5, price = 10\<rparr>
      \<in> set (items (updateQuantity ''A'' 5 cartAB))" by simp
  note at0 = updateQuantity_sets_or_removes[OF mem idA, of 0]
  from at0[THEN conjunct2, THEN conjunct2, THEN conjunct1]
  have b: "filter (\<lambda>l'. p_id (product l') = ''A'') (items (updateQuantity ''A'' 0 cartAB)) = []"
    by (simp add: filter_empty_conv)
  from at0[THEN conjunct2, THEN conjunct2, THEN conjunct2, THEN conjunct1]
  have c: "filter (\<lambda>l'. p_id (product l') = ''A'') (items (updateQuantity ''A'' (- 1) cartAB)) = []"
    by (simp add: filter_empty_conv)
  have m7: "max 0 (- 7 :: int) = 0" by simp
  from updateQuantity_sets_or_removes[OF mem idA, of "- 7", THEN conjunct2, THEN conjunct1] m7
  have "\<forall>l'\<in>set (items (updateQuantity ''A'' (- 7) cartAB)). p_id (product l') \<noteq> ''A''"
    by (rule mp)
  then have d: "filter (\<lambda>l'. p_id (product l') = ''A'') (items (updateQuantity ''A'' (- 7) cartAB)) = []"
    by (simp add: filter_empty_conv)
  from mem a b c d show ?thesis by (intro conjI)
qed

section \<open>What the mutations leave alone\<close>

text \<open>
  C9. \<open>addToCart\<close> changes \<open>items\<close>, \<open>totalItems\<close>, \<open>totalAmount\<close> and \<open>error\<close> only: it sets
  \<open>error\<close> to null and leaves \<open>loading\<close> as it was. \<open>removeFromCart\<close> and
  \<open>updateQuantity\<close> leave \<open>error\<close> (and \<open>loading\<close>) as they were.
\<close>

theorem cart_mutations_frame:
  "addToCart p qty s =
     s\<lparr>items := items (addToCart p qty s), totalItems := totalItems (addToCart p qty s),
       totalAmount := totalAmount (addToCart p qty s), error := None\<rparr>
   \<and> loading (addToCart p qty s) = loading s
   \<and> error (addToCart p qty s) = None
   \<and> error (removeFromCart pid s) = error s
   \<and> loading (removeFromCart pid s) = loading s
   \<and> error (updateQuantity pid q s) = error s
   \<and> loading (updateQuantity pid q s) = loading s"
  by (simp add: addToCart_def removeFromCart_def updateQuantity_def Let_def)

section \<open>Checkout\<close>

text \<open>
  C7. On a cart without items \<open>createBooking\<close> throws \<open>Cart is empty\<close>: it has sent no
  request to the booking service and dispatched no action (so \<open>loading\<close> was never set),
  and the cart state is what it was.
\<close>

theorem createBooking_empty_cart:
  "items s = [] \<Longrightarrow>
     outcome (createBooking api s) = Inl (Error ''Cart is empty'')
     \<and> requests (createBooking api s) = []
     \<and> dispatched (createBooking api s) = []
     \<and> stateAfter s (createBooking api s) = s"
  by (simp add: createBooking_def stateAfter_def)

theorem createBooking_empty_cart_witness:
  "items initialState = []
   \<and> outcome (createBooking apiAccepts initialState) = Inl (Error ''Cart is empty'')
   \<and> requests (createBooking apiAccepts initialState) = []
   \<and> dispatched (createBooking apiAccepts initialState) = []
   \<and> stateAfter initialState (createBooking apiAccepts initialState) = initialState"
proof -
  have e: "items initialState = []" by (simp add: initialState_def)
  from e createBooking_empty_cart[OF e, of apiAccepts] show ?thesis by (intro conjI) simp_all
qed

text \<open>
  C8. On a cart with items \<open>createBooking\<close> sends one request. If the service resolves, the
  caller gets the data of the response, and afterwards \<open>items\<close> is empty, both totals are 0
  and \<open>loading\<close> is false. If the service rejects, the caller gets the same error thrown
  again, \<open>items\<close> and both totals are what they were, \<open>error\<close> is the message of the error
  response, or \<open>Failed to create booking\<close> where that message is missing or empty, and
  \<open>loading\<close> is false.
\<close>

theorem createBooking_outcomes:
  assumes "items s \<noteq> []"
  shows "\<exists>bd. requests (createBooking api s) = [bd] \<and>
     (case api bd of
        Inr response \<Rightarrow>
          outcome (createBooking api s) = Inr (resp_data response)
          \<and> items (stateAfter s (createBooking api s)) = []
          \<and> totalItems (stateAfter s (createBooking api s)) = 0
          \<and> totalAmount (stateAfter s (createBooking api s)) = 0
          \<and> loading (stateAfter s (createBooking api s)) = False
      | Inl err \<Rightarrow>
          outcome (createBooking api s) = Inl (Rejected err)
          \<and> items (stateAfter s (createBooking api s)) = items s
          \<and> totalItems (stateAfter s (createBooking api s)) = totalItems s
          \<and> totalAmount (stateAfter s (createBooking api s)) = totalAmount s
          \<and> (\<forall>m. response_error_message err = Some m \<and> m \<noteq> [] \<longrightarrow>
                error (stateAfter s (createBooking api s)) = Some m)
          \<and> (response_error_message err = None \<or> response_error_message err = Some [] \<longrightarrow>
                error (stateAfter s (createBooking api s)) = Some ''Failed to create booking'')
          \<and> loading (stateAfter s (createBooking api s)) = False)"
proof -
  let ?bd = "\<lparr>bd_products =
                 map (\<lambda>item. \<lparr>bi_productId = p_id (product item),
                               bi_quantity = quantity item,
                               bi_price = price item\<rparr>) (items s),
               bd_totalAmount = totalAmount s\<rparr>"
  show ?thesis
  proof (cases "api ?bd")
    case (Inr response)
    with assms show ?thesis
      by (intro exI[of _ ?bd]) (simp add: createBooking_def stateAfter_def Let_def)
  next
    case (Inl err)
    with assms show ?thesis
      by (intro exI[of _ ?bd])
         (auto simp add: createBooking_def stateAfter_def Let_def split: option.splits)
  qed
qed

theorem createBooking_outcomes_witness:
  "items cartAB \<noteq> []
   \<and> outcome (createBooking apiAccepts cartAB) = Inr ''Booking created successfully''
   \<and> items (stateAfter cartAB (createBooking apiAccepts cartAB)) = []
   \<and> totalItems (stateAfter cartAB (createBooking apiAccepts cartAB)) = 0
   \<and> totalAmount (stateAfter cartAB (createBooking apiAccepts cartAB)) = 0
   \<and> loading (stateAfter cartAB (createBooking apiAccepts cartAB)) = False
   \<and> items (stateAfter cartAB (createBooking apiRejects cartAB)) = items cartAB
   \<and> totalAmount (stateAfter cartAB (createBooking apiRejects cartAB)) = 71 / 2
   \<and> error (stateAfter cartAB (createBooking apiRejects cartAB)) =
       Some ''One or more products are not available''
   \<and> loading (stateAfter cartAB (createBooking apiRejects cartAB)) = False"
proof -
  have ne: "items cartAB \<noteq> []" by (simp add: cartAB_def)
  from createBooking_outcomes[OF ne, of apiAccepts]
  have ok: "outcome (createBooking apiAccepts cartAB) = Inr ''Booking created successfully''
     \<and> items (stateAfter cartAB (createBooking apiAccepts cartAB)) = []
     \<and> totalItems (stateAfter cartAB (createBooking apiAccepts cartAB)) = 0
     \<and> totalAmount (stateAfter cartAB (createBooking apiAccepts cartAB)) = 0
     \<and> loading (stateAfter cartAB (createBooking apiAccepts cartAB)) = False"
    by (auto simp: apiAccepts_def)
  from createBooking_outcomes[OF ne, of apiRejects]
  have ko: "items (stateAfter cartAB (createBooking apiRejects cartAB)) = items cartAB
     \<and> totalAmount (stateAfter cartAB (createBooking apiRejects cartAB)) = totalAmount cartAB
     \<and> error (stateAfter cartAB (createBooking apiRejects cartAB)) =
         Some ''One or more products are not available''
     \<and> loading (stateAfter cartAB (createBooking apiRejects cartAB)) = False"
    by (auto simp: apiRejects_def)
  have "totalAmount cartAB = 71 / 2" by (simp add: cartAB_def)
  with ne ok ko show ?thesis by simp
qed

section \<open>Booking service\<close>

lemma isMongoId_ids:
  "isMongoId idA" "isMongoId idB" "isMongoId idC" "isMongoId idD" "isMongoId userE"
  by (simp_all add: isMongoId_def isHexadecimal_def isHexDigit_def
        idA_def idB_def idC_def idD_def userE_def)

lemma cast_ids:
  "castObjectId idA = Some (ObjectId idA)" "castObjectId idB = Some (ObjectId idB)"
  "castObjectId idC = Some (ObjectId idC)" "castObjectId idD = Some (ObjectId idD)"
  "castObjectId userE = Some (ObjectId userE)"
  by (simp_all add: castObjectId_def isHexDigit_def lowerHex_def
        idA_def idB_def idC_def idD_def userE_def)

lemma ids_differ:
  "idA \<noteq> idB" "idA \<noteq> idC" "idA \<noteq> idD" "idB \<noteq> idC" "idB \<noteq> idD" "idC \<noteq> idD"
  by (simp_all add: idA_def idB_def idC_def idD_def)

lemma those_map_Some:
  "those (map f xs) = Some ys \<Longrightarrow> list_all2 (\<lambda>y x. f x = Some y) ys xs"
proof (induction xs arbitrary: ys)
  case Nil
  then show ?case by simp
next
  case (Cons x xs)
  from Cons.prems obtain y ys' where fx: "f x = Some y" and rest: "those (map f xs) = Some ys'"
    and ys: "ys = y # ys'"
    by (auto split: option.splits)
  from Cons.IH[OF rest] fx ys show ?case by simp
qed

lemma find_Some_member:
  "find P xs = Some x \<Longrightarrow> x \<in> set xs \<and> P x"
  by (induction xs) (auto split: if_splits)

lemma toString_inject: "toString a = toString b \<Longrightarrow> a = b"
  by (cases a; cases b) simp

lemma bookingProducts_lines:
  assumes "bookingProducts existing products = Some lines"
  shows "list_all2 (\<lambda>l ord. bl_productId l = op_productId ord \<and> bl_quantity l = op_quantity ord
            \<and> (\<exists>p\<in>set existing. toString (doc_id p) = op_productId ord
                   \<and> bl_price l = doc_price p)) lines products"
proof -
  let ?f = "\<lambda>orderProduct.
        map_option
          (\<lambda>product. \<lparr>bl_productId = op_productId orderProduct,
                       bl_quantity = op_quantity orderProduct,
                       bl_price = doc_price product\<rparr>)
          (find (\<lambda>p. toString (doc_id p) = op_productId orderProduct) existing)"
  from assms have "list_all2 (\<lambda>y x. ?f x = Some y) lines products"
    unfolding bookingProducts_def by (rule those_map_Some)
  then show ?thesis
  proof (rule list_all2_mono)
    fix l ord
    assume "?f ord = Some l"
    then obtain p where fp: "find (\<lambda>p. toString (doc_id p) = op_productId ord) existing = Some p"
      and l: "l = \<lparr>bl_productId = op_productId ord, bl_quantity = op_quantity ord,
                    bl_price = doc_price p\<rparr>"
      by auto
    from find_Some_member[OF fp] l
    show "bl_productId l = op_productId ord \<and> bl_quantity l = op_quantity ord
            \<and> (\<exists>p\<in>set existing. toString (doc_id p) = op_productId ord
                   \<and> bl_price l = doc_price p)"
      by auto
  qed
qed

lemma save_Inr:
  assumes "save b coll = Inr (b', coll')"
  shows "validateBooking b" and "b' = preSave b" and "coll' = coll @ [b']"
  using assms by (auto simp: save_def Let_def split: if_splits)

lemma preSave_products: "b_products (preSave b) = b_products b"
  by (simp add: preSave_def)

lemma preSave_total:
  "b_products b \<noteq> [] \<Longrightarrow>
   b_totalAmount (preSave b) =
     Some (sum_list (map (\<lambda>l. bl_price l * of_int (bl_quantity l)) (b_products b)))"
  by (simp add: preSave_def foldl_add_sum_list)

lemma postBookings_Created:
  assumes "postBookings uid req st = (Created b, st')"
  shows "validRequest req"
    and "\<exists>existing lines.
            Product_find (map op_productId (rq_products req)) (catalog st) = Some existing
          \<and> bookingProducts existing (rq_products req) = Some lines
          \<and> save (newBooking uid lines) (bookings st) = Inr (b, bookings st')"
    and "catalog st' = catalog st"
  using assms
  by (auto simp: postBookings_def Let_def split: if_splits option.splits sum.splits prod.splits)

lemma validRequest_cong:
  assumes "map op_productId (rq_products r') = map op_productId (rq_products r)"
    and "map op_quantity (rq_products r') = map op_quantity (rq_products r)"
  shows "validRequest r' = validRequest r"
proof -
  have len: "length (rq_products r') = length (rq_products r)"
    using assms(1) by (rule map_eq_imp_length_eq)
  have a: "list_all (\<lambda>p. isMongoId (op_productId p)) ps = list_all isMongoId (map op_productId ps)"
    for ps :: "order_product list"
    by (simp add: list_all_iff)
  have b: "list_all (\<lambda>p. op_quantity p \<ge> 1 \<and> op_quantity p < 10 ^ 21) ps =
      list_all (\<lambda>q. q \<ge> 1 \<and> q < 10 ^ 21) (map op_quantity ps)"
    for ps :: "order_product list"
    by (simp add: list_all_iff)
  show ?thesis
    unfolding validRequest_def a b by (simp only: assms len)
qed

lemma bookingProducts_by_fields:
  "bookingProducts existing ps =
     those (map (\<lambda>(i, q).
        map_option (\<lambda>product. \<lparr>bl_productId = i, bl_quantity = q, bl_price = doc_price product\<rparr>)
          (find (\<lambda>p. toString (doc_id p) = i) existing))
        (zip (map op_productId ps) (map op_quantity ps)))"
  by (simp add: bookingProducts_def zip_map_map zip_same_conv_map comp_def)

lemma postBookings_cong:
  assumes "map op_productId (rq_products r') = map op_productId (rq_products r)"
    and "map op_quantity (rq_products r') = map op_quantity (rq_products r)"
  shows "postBookings uid r' st = postBookings uid r st"
proof -
  have len: "length (rq_products r') = length (rq_products r)"
    using assms(1) by (rule map_eq_imp_length_eq)
  have bp: "bookingProducts ex (rq_products r') = bookingProducts ex (rq_products r)" for ex
    by (simp only: bookingProducts_by_fields assms)
  show ?thesis
    unfolding postBookings_def Let_def
    by (simp only: validRequest_cong[OF assms] assms bp length_map len)
qed

lemma find_examples:
  "Product_find [idC] exampleCatalog =
     Some [\<lparr>doc_id = ObjectId idC, doc_price = 2599 / 100, inStock = True\<rparr>]"
  "Product_find [idA, idB] exampleCatalog =
     Some [\<lparr>doc_id = ObjectId idA, doc_price = 10, inStock = True\<rparr>,
           \<lparr>doc_id = ObjectId idB, doc_price = 31 / 2, inStock = True\<rparr>]"
  using ids_differ ids_differ[symmetric]
  by (simp_all add: Product_find_def exampleCatalog_def cast_ids)

lemma validate_testBooking:
  "validateBooking (testBooking\<lparr>b_totalAmount := t\<rparr>) =
     (case t of None \<Rightarrow> True | Some v \<Rightarrow> v \<ge> 0)"
  by (simp add: validateBooking_def testBooking_def validLine_def cast_ids)

lemma run_tampered:
  "postBookings userE tamperedRequest exampleServer =
     (Created \<lparr>b_userId = userE,
               b_products = [\<lparr>bl_productId = idC, bl_quantity = 1, bl_price = 2599 / 100\<rparr>],
               b_totalAmount = Some (2599 / 100), b_status = ''pending''\<rparr>,
      \<lparr>catalog = exampleCatalog,
       bookings = [\<lparr>b_userId = userE,
               b_products = [\<lparr>bl_productId = idC, bl_quantity = 1, bl_price = 2599 / 100\<rparr>],
               b_totalAmount = Some (2599 / 100), b_status = ''pending''\<rparr>]\<rparr>)"
proof -
  have v: "validRequest tamperedRequest"
    by (simp add: validRequest_def tamperedRequest_def isMongoId_ids)
  have ps: "rq_products tamperedRequest =
      [\<lparr>op_productId = idC, op_quantity = 1, op_price = Some (1 / 100)\<rparr>]"
    by (simp add: tamperedRequest_def)
  have bp: "bookingProducts [\<lparr>doc_id = ObjectId idC, doc_price = 2599 / 100, inStock = True\<rparr>]
      [\<lparr>op_productId = idC, op_quantity = 1, op_price = Some (1 / 100)\<rparr>] =
      Some [\<lparr>bl_productId = idC, bl_quantity = 1, bl_price = 2599 / 100\<rparr>]"
    by (simp add: bookingProducts_def)
  have sv: "save (newBooking userE [\<lparr>bl_productId = idC, bl_quantity = 1, bl_price = 2599 / 100\<rparr>]) []
      = Inr (\<lparr>b_userId = userE,
               b_products = [\<lparr>bl_productId = idC, bl_quantity = 1, bl_price = 2599 / 100\<rparr>],
               b_totalAmount = Some (2599 / 100), b_status = ''pending''\<rparr>,
             [\<lparr>b_userId = userE,
               b_products = [\<lparr>bl_productId = idC, bl_quantity = 1, bl_price = 2599 / 100\<rparr>],
               b_totalAmount = Some (2599 / 100), b_status = ''pending''\<rparr>])"
    by (simp add: save_def newBooking_def validateBooking_def validLine_def cast_ids
          preSave_def Let_def)
  show ?thesis
    using v by (simp add: postBookings_def Let_def exampleServer_def ps find_examples bp sv)
qed

lemma run_twoLine:
  "postBookings userE twoLineRequest exampleServer =
     (Created (testBooking\<lparr>b_totalAmount := Some (71 / 2)\<rparr>),
      \<lparr>catalog = exampleCatalog,
       bookings = [testBooking\<lparr>b_totalAmount := Some (71 / 2)\<rparr>]\<rparr>)"
proof -
  have v: "validRequest twoLineRequest"
    by (simp add: validRequest_def twoLineRequest_def isMongoId_ids)
  have ps: "rq_products twoLineRequest =
      [\<lparr>op_productId = idA, op_quantity = 2, op_price = Some 10\<rparr>,
       \<lparr>op_productId = idB, op_quantity = 1, op_price = Some (31 / 2)\<rparr>]"
    by (simp add: twoLineRequest_def)
  have bp: "bookingProducts
      [\<lparr>doc_id = ObjectId idA, doc_price = 10, inStock = True\<rparr>,
       \<lparr>doc_id = ObjectId idB, doc_price = 31 / 2, inStock = True\<rparr>]
      [\<lparr>op_productId = idA, op_quantity = 2, op_price = Some 10\<rparr>,
       \<lparr>op_productId = idB, op_quantity = 1, op_price = Some (31 / 2)\<rparr>] =
      Some [\<lparr>bl_productId = idA, bl_quantity = 2, bl_price = 10\<rparr>,
            \<lparr>bl_productId = idB, bl_quantity = 1, bl_price = 31 / 2\<rparr>]"
    using ids_differ by (simp add: bookingProducts_def)
  have nb: "newBooking userE [\<lparr>bl_productId = idA, bl_quantity = 2, bl_price = 10\<rparr>,
            \<lparr>bl_productId = idB, bl_quantity = 1, bl_price = 31 / 2\<rparr>] =
        testBooking\<lparr>b_totalAmount := None\<rparr>"
    by (simp add: newBooking_def testBooking_def)
  have sv: "save (testBooking\<lparr>b_totalAmount := None\<rparr>) [] =
      Inr (testBooking\<lparr>b_totalAmount := Some (71 / 2)\<rparr>,
           [testBooking\<lparr>b_totalAmount := Some (71 / 2)\<rparr>])"
    by (simp add: save_def validate_testBooking Let_def preSave_def)
       (simp add: testBooking_def)
  show ?thesis
    using v by (simp add: postBookings_def Let_def exampleServer_def ps find_examples bp nb sv)
qed

lemma save_testBooking:
  "save testBooking [] =
      Inr (testBooking\<lparr>b_totalAmount := Some (71 / 2)\<rparr>,
           [testBooking\<lparr>b_totalAmount := Some (71 / 2)\<rparr>])"
proof -
  have "validateBooking testBooking"
    using validate_testBooking[of "Some 0"] by (simp add: testBooking_def)
  then show ?thesis
    by (simp add: save_def Let_def preSave_def) (simp add: testBooking_def)
qed

text \<open>
  Two requests at the edge of the validation chain. An id of 24 characters that is
  hexadecimal only by its prefix passes the chain and fails in the query's cast, which
  the \<open>catch\<close> answers with 500. A quantity of \<open>10^21\<close> does not pass the chain.
\<close>

lemma postBookings_prefixed_id:
  "isMongoId ''0x1234567890abcdef123456''
   \<and> castObjectId ''0x1234567890abcdef123456'' = None
   \<and> postBookings userE
        \<lparr>rq_products = [\<lparr>op_productId = ''0x1234567890abcdef123456'', op_quantity = 1,
                          op_price = None\<rparr>],
         rq_totalAmount = None\<rparr> exampleServer =
      (Failure 500 BOOKING_CREATE_ERROR, exampleServer)"
proof -
  have m: "isMongoId ''0x1234567890abcdef123456''"
    by (simp add: isMongoId_def isHexadecimal_def isHexDigit_def)
  have c: "castObjectId ''0x1234567890abcdef123456'' = None"
    by (simp add: castObjectId_def isHexDigit_def)
  have f: "Product_find [''0x1234567890abcdef123456''] coll = None" for coll
    by (simp add: Product_find_def c)
  have "postBookings userE
        \<lparr>rq_products = [\<lparr>op_productId = ''0x1234567890abcdef123456'', op_quantity = 1,
                          op_price = None\<rparr>],
         rq_totalAmount = None\<rparr> exampleServer =
      (Failure 500 BOOKING_CREATE_ERROR, exampleServer)"
    using m by (simp add: postBookings_def validRequest_def Let_def f)
  with m c show ?thesis by (intro conjI)
qed

lemma postBookings_huge_quantity:
  "postBookings userE
     \<lparr>rq_products = [\<lparr>op_productId = idA, op_quantity = 10 ^ 21, op_price = None\<rparr>],
      rq_totalAmount = None\<rparr> exampleServer =
   (Failure 400 VALIDATION_ERROR, exampleServer)"
  by (simp add: postBookings_def validRequest_def)

text \<open>
  A valid request whose ids cast, and for which fewer in-stock products are found than it
  names distinct ids, is rejected with \<open>PRODUCTS_NOT_AVAILABLE\<close>, and nothing is stored.
\<close>

lemma postBookings_unavailable:
  assumes "validRequest req"
    and "Product_find (map op_productId (rq_products req)) (catalog st) = Some found"
    and "length found < card (set (map op_productId (rq_products req)))"
  shows "postBookings uid req st = (Failure 400 PRODUCTS_NOT_AVAILABLE, st)"
proof -
  have "card (set (map op_productId (rq_products req))) \<le> length (rq_products req)"
    using card_length[of "map op_productId (rq_products req)"] by simp
  with assms(3) have "length found \<noteq> length (rq_products req)"
    by linarith
  with assms(1,2) show ?thesis by (simp add: postBookings_def Let_def)
qed

text \<open>
  C1. The availability check compares the number of products found with the number of
  lines of the request, not with the number of distinct ids. A valid request with two
  lines for the same product, which is in the catalog and in stock, is rejected with
  \<open>PRODUCTS_NOT_AVAILABLE\<close>, although every id it names matches an in-stock product.
\<close>

theorem postBookings_rejects_duplicate_lines:
  "validRequest duplicateRequest
   \<and> list_all (\<lambda>i. list_ex (\<lambda>p. castObjectId i = Some (doc_id p) \<and> inStock p) exampleCatalog)
       (map op_productId (rq_products duplicateRequest))
   \<and> postBookings userE duplicateRequest exampleServer =
       (Failure 400 PRODUCTS_NOT_AVAILABLE, exampleServer)"
proof -
  have v: "validRequest duplicateRequest"
    by (simp add: validRequest_def duplicateRequest_def isMongoId_ids)
  have m: "list_all (\<lambda>i. list_ex (\<lambda>p. castObjectId i = Some (doc_id p) \<and> inStock p) exampleCatalog)
       (map op_productId (rq_products duplicateRequest))"
    by (simp add: duplicateRequest_def exampleCatalog_def cast_ids)
  have f: "Product_find (map op_productId (rq_products duplicateRequest)) exampleCatalog =
      Some [\<lparr>doc_id = ObjectId idA, doc_price = 10, inStock = True\<rparr>]"
    using ids_differ
    by (simp add: Product_find_def duplicateRequest_def exampleCatalog_def cast_ids)
  have "postBookings userE duplicateRequest exampleServer =
       (Failure 400 PRODUCTS_NOT_AVAILABLE, exampleServer)"
    using v by (simp add: postBookings_def Let_def exampleServer_def f)
       (simp add: duplicateRequest_def)
  with v m show ?thesis by simp
qed

text \<open>
  C2. When the handler creates a booking, over a catalog whose ids are distinct, the
  lines of the booking follow the lines of the request, with the id and quantity
  requested, and the price of each is the price of the one catalog product with that id,
  which is in stock. That booking is the one appended to the stored bookings. A request
  with the same ids and quantities, whatever prices and total it carries, gets the same
  answer.
\<close>

theorem booking_lines_priced_from_catalog:
  assumes "distinct (map doc_id (catalog st))"
    and "postBookings uid req st = (Created b, st')"
  shows "list_all2 (\<lambda>l ord. bl_productId l = op_productId ord \<and> bl_quantity l = op_quantity ord
            \<and> (\<exists>p\<in>set (catalog st). toString (doc_id p) = op_productId ord \<and> inStock p
                   \<and> bl_price l = doc_price p)
            \<and> (\<forall>p\<in>set (catalog st). toString (doc_id p) = op_productId ord \<longrightarrow>
                   bl_price l = doc_price p))
          (b_products b) (rq_products req)
       \<and> bookings st' = bookings st @ [b]
       \<and> (\<forall>req'. map op_productId (rq_products req') = map op_productId (rq_products req)
              \<and> map op_quantity (rq_products req') = map op_quantity (rq_products req)
              \<longrightarrow> postBookings uid req' st = postBookings uid req st)"
proof -
  from postBookings_Created(2)[OF assms(2)] obtain existing lines
    where pf: "Product_find (map op_productId (rq_products req)) (catalog st) = Some existing"
      and bp: "bookingProducts existing (rq_products req) = Some lines"
      and sv: "save (newBooking uid lines) (bookings st) = Inr (b, bookings st')"
    by blast
  from save_Inr[OF sv] have b: "b = preSave (newBooking uid lines)"
    and coll: "bookings st' = bookings st @ [b]" by simp_all
  have prods: "b_products b = lines"
    unfolding b by (simp add: preSave_products newBooking_def)
  have inj: "inj_on doc_id (set (catalog st))"
    using assms(1) by (simp add: distinct_map)
  have sub: "p \<in> set existing \<Longrightarrow> p \<in> set (catalog st) \<and> inStock p" for p
    using pf by (auto simp: Product_find_def split: option.splits)
  have "list_all2 (\<lambda>l ord. bl_productId l = op_productId ord \<and> bl_quantity l = op_quantity ord
            \<and> (\<exists>p\<in>set (catalog st). toString (doc_id p) = op_productId ord \<and> inStock p
                   \<and> bl_price l = doc_price p)
            \<and> (\<forall>p\<in>set (catalog st). toString (doc_id p) = op_productId ord \<longrightarrow>
                   bl_price l = doc_price p))
          lines (rq_products req)"
    using bookingProducts_lines[OF bp]
  proof (rule list_all2_mono)
    fix l ord
    assume h: "bl_productId l = op_productId ord \<and> bl_quantity l = op_quantity ord
            \<and> (\<exists>p\<in>set existing. toString (doc_id p) = op_productId ord
                   \<and> bl_price l = doc_price p)"
    then obtain p where pe: "p \<in> set existing"
      and pid: "toString (doc_id p) = op_productId ord" and pr: "bl_price l = doc_price p"
      by blast
    from sub[OF pe] have pc: "p \<in> set (catalog st)" and ps: "inStock p" by simp_all
    have uniq: "bl_price l = doc_price p'"
      if "p' \<in> set (catalog st)" and "toString (doc_id p') = op_productId ord" for p'
    proof -
      from that(2) pid have "doc_id p' = doc_id p" by (intro toString_inject) simp
      with inj that(1) pc have "p' = p" by (simp add: inj_on_def)
      with pr show ?thesis by simp
    qed
    from h pc ps pid pr uniq
    show "bl_productId l = op_productId ord \<and> bl_quantity l = op_quantity ord
            \<and> (\<exists>p\<in>set (catalog st). toString (doc_id p) = op_productId ord \<and> inStock p
                   \<and> bl_price l = doc_price p)
            \<and> (\<forall>p\<in>set (catalog st). toString (doc_id p) = op_productId ord \<longrightarrow>
                   bl_price l = doc_price p)"
      by blast
  qed
  with prods coll postBookings_cong[of _ req uid st] show ?thesis by blast
qed

theorem booking_lines_priced_from_catalog_witness:
  "distinct (map doc_id (catalog exampleServer))
   \<and> (\<exists>bk st'. postBookings userE tamperedRequest exampleServer = (Created bk, st')
        \<and> map bl_price (b_products bk) = [2599 / 100]
        \<and> bookings st' = [bk])
   \<and> postBookings userE
        (tamperedRequest\<lparr>rq_products :=
           [\<lparr>op_productId = idC, op_quantity = 1, op_price = Some (2599 / 100)\<rparr>]\<rparr>)
        exampleServer =
      postBookings userE tamperedRequest exampleServer"
proof -
  let ?bk = "\<lparr>b_userId = userE,
               b_products = [\<lparr>bl_productId = idC, bl_quantity = 1, bl_price = 2599 / 100\<rparr>],
               b_totalAmount = Some (2599 / 100), b_status = ''pending''\<rparr>"
  let ?st' = "\<lparr>catalog = exampleCatalog, bookings = [?bk]\<rparr>"
  let ?honest = "tamperedRequest\<lparr>rq_products :=
           [\<lparr>op_productId = idC, op_quantity = 1, op_price = Some (2599 / 100)\<rparr>]\<rparr>"
  have d: "distinct (map doc_id (catalog exampleServer))"
    using ids_differ by (simp add: exampleServer_def exampleCatalog_def)
  note t = booking_lines_priced_from_catalog[OF d run_tampered]
  have c: "\<lparr>doc_id = ObjectId idC, doc_price = 2599 / 100, inStock = True\<rparr>
      \<in> set (catalog exampleServer)"
    by (simp add: exampleServer_def exampleCatalog_def)
  from t have "list_all2 (\<lambda>l ord. \<forall>p\<in>set (catalog exampleServer).
        toString (doc_id p) = op_productId ord \<longrightarrow> bl_price l = doc_price p)
      (b_products ?bk) (rq_products tamperedRequest)"
    by (elim conjE list_all2_mono) blast
  with c have price: "map bl_price (b_products ?bk) = [2599 / 100]"
    by (simp add: tamperedRequest_def)
  from t have stored: "bookings ?st' = bookings exampleServer @ [?bk]" by blast
  have same: "map op_productId (rq_products ?honest) = map op_productId (rq_products tamperedRequest)
     \<and> map op_quantity (rq_products ?honest) = map op_quantity (rq_products tamperedRequest)"
    by (simp add: tamperedRequest_def)
  with t have indep: "postBookings userE ?honest exampleServer =
      postBookings userE tamperedRequest exampleServer"
    by blast
  from stored have "bookings ?st' = [?bk]" by (simp add: exampleServer_def)
  with run_tampered price
  have "postBookings userE tamperedRequest exampleServer = (Created ?bk, ?st')
        \<and> map bl_price (b_products ?bk) = [2599 / 100] \<and> bookings ?st' = [?bk]"
    by (intro conjI)
  then have "\<exists>bk st'. postBookings userE tamperedRequest exampleServer = (Created bk, st')
        \<and> map bl_price (b_products bk) = [2599 / 100] \<and> bookings st' = [bk]"
    by - (rule exI, rule exI, assumption)
  with d indep show ?thesis by (intro conjI)
qed

lemma save_valid_total:
  assumes "case t of None \<Rightarrow> True | Some v \<Rightarrow> 0 \<le> v"
    and "case u of None \<Rightarrow> True | Some v \<Rightarrow> 0 \<le> v"
  shows "save (b\<lparr>b_totalAmount := t\<rparr>) coll = save (b\<lparr>b_totalAmount := u\<rparr>) coll"
proof -
  have v: "validateBooking (b\<lparr>b_totalAmount := t\<rparr>) = validateBooking (b\<lparr>b_totalAmount := u\<rparr>)"
    using assms by (simp add: validateBooking_def)
  have p: "preSave (b\<lparr>b_totalAmount := t\<rparr>) = preSave (b\<lparr>b_totalAmount := u\<rparr>)"
    if "validateBooking (b\<lparr>b_totalAmount := t\<rparr>)"
    using that by (simp add: validateBooking_def preSave_def)
  show ?thesis
  proof (cases "validateBooking (b\<lparr>b_totalAmount := t\<rparr>)")
    case True
    with v p show ?thesis by (simp add: save_def Let_def)
  next
    case False
    with v show ?thesis by (simp add: save_def)
  qed
qed

lemma save_negative_total:
  "v < 0 \<Longrightarrow> save (b\<lparr>b_totalAmount := Some v\<rparr>) coll = Inl ValidationError"
  by (simp add: save_def validateBooking_def)

text \<open>
  C3. A booking with lines that has been saved carries the sum of price times quantity
  over its lines as \<open>totalAmount\<close>; the middleware writes that sum over whatever total the
  booking held. A total that the caller supplies and that passes the validation of the
  schema (none, or a number that is not negative) has no effect on what \<open>save\<close> does. A
  negative total does: the validation, which runs before the middleware, refuses the
  booking, and nothing is stored. The handler does not read the total of the request
  body, and the booking it creates carries the sum over its lines.
\<close>

theorem booking_total_recomputed:
  "(b_products b \<noteq> [] \<and> save b coll = Inr (b', coll') \<longrightarrow>
      b_products b' = b_products b
      \<and> b_totalAmount b' =
          Some (sum_list (map (\<lambda>l. bl_price l * of_int (bl_quantity l)) (b_products b'))))
   \<and> (b_products b \<noteq> [] \<longrightarrow>
        b_totalAmount (preSave (b\<lparr>b_totalAmount := t\<rparr>)) =
          Some (sum_list (map (\<lambda>l. bl_price l * of_int (bl_quantity l)) (b_products b))))
   \<and> ((case t of None \<Rightarrow> True | Some v \<Rightarrow> 0 \<le> v)
        \<and> (case u of None \<Rightarrow> True | Some v \<Rightarrow> 0 \<le> v) \<longrightarrow>
        save (b\<lparr>b_totalAmount := t\<rparr>) coll = save (b\<lparr>b_totalAmount := u\<rparr>) coll)
   \<and> (w < 0 \<longrightarrow> save (b\<lparr>b_totalAmount := Some w\<rparr>) coll = Inl ValidationError)
   \<and> postBookings uid (req\<lparr>rq_totalAmount := t'\<rparr>) st = postBookings uid req st
   \<and> (postBookings uid req st = (Created bk, st') \<longrightarrow>
        b_totalAmount bk =
          Some (sum_list (map (\<lambda>l. bl_price l * of_int (bl_quantity l)) (b_products bk))))"
proof (intro conjI impI)
  assume h: "b_products b \<noteq> [] \<and> save b coll = Inr (b', coll')"
  then have ne: "b_products b \<noteq> []" and sv: "save b coll = Inr (b', coll')" by simp_all
  from save_Inr(2)[OF sv] have b': "b' = preSave b" .
  show "b_products b' = b_products b" unfolding b' by (rule preSave_products)
  show "b_totalAmount b' =
          Some (sum_list (map (\<lambda>l. bl_price l * of_int (bl_quantity l)) (b_products b')))"
    unfolding b' preSave_products by (rule preSave_total[OF ne])
next
  assume ne: "b_products b \<noteq> []"
  then have "b_products (b\<lparr>b_totalAmount := t\<rparr>) \<noteq> []" by simp
  from preSave_total[OF this]
  show "b_totalAmount (preSave (b\<lparr>b_totalAmount := t\<rparr>)) =
          Some (sum_list (map (\<lambda>l. bl_price l * of_int (bl_quantity l)) (b_products b)))"
    by simp
next
  assume "(case t of None \<Rightarrow> True | Some v \<Rightarrow> 0 \<le> v)
        \<and> (case u of None \<Rightarrow> True | Some v \<Rightarrow> 0 \<le> v)"
  then show "save (b\<lparr>b_totalAmount := t\<rparr>) coll = save (b\<lparr>b_totalAmount := u\<rparr>) coll"
    by (intro save_valid_total) simp_all
next
  assume "w < 0"
  then show "save (b\<lparr>b_totalAmount := Some w\<rparr>) coll = Inl ValidationError"
    by (rule save_negative_total)
next
  show "postBookings uid (req\<lparr>rq_totalAmount := t'\<rparr>) st = postBookings uid req st"
    by (rule postBookings_cong) simp_all
next
  assume c: "postBookings uid req st = (Created bk, st')"
  from postBookings_Created(2)[OF c] obtain lines
    where sv: "save (newBooking uid lines) (bookings st) = Inr (bk, bookings st')"
    by blast
  from save_Inr[OF sv] have v: "validateBooking (newBooking uid lines)"
    and bk: "bk = preSave (newBooking uid lines)" by simp_all
  from v have ne: "b_products (newBooking uid lines) \<noteq> []"
    by (simp add: validateBooking_def)
  show "b_totalAmount bk =
          Some (sum_list (map (\<lambda>l. bl_price l * of_int (bl_quantity l)) (b_products bk)))"
    unfolding bk preSave_products by (rule preSave_total[OF ne])
qed

theorem booking_total_recomputed_witness:
  "b_products testBooking \<noteq> []
   \<and> save testBooking [] =
       Inr (testBooking\<lparr>b_totalAmount := Some (71 / 2)\<rparr>,
            [testBooking\<lparr>b_totalAmount := Some (71 / 2)\<rparr>])
   \<and> b_totalAmount (preSave (testBooking\<lparr>b_totalAmount := Some 1000\<rparr>)) = Some (71 / 2)
   \<and> save (testBooking\<lparr>b_totalAmount := Some 1000\<rparr>) [] =
       save (testBooking\<lparr>b_totalAmount := None\<rparr>) []
   \<and> save (testBooking\<lparr>b_totalAmount := Some (- 1 / 100)\<rparr>) [] = Inl ValidationError
   \<and> postBookings userE (twoLineRequest\<lparr>rq_totalAmount := Some 1000\<rparr>) exampleServer =
       postBookings userE twoLineRequest exampleServer
   \<and> (\<exists>bk st'. postBookings userE twoLineRequest exampleServer = (Created bk, st')
        \<and> b_totalAmount bk = Some (71 / 2))"
proof -
  let ?saved = "testBooking\<lparr>b_totalAmount := Some (71 / 2)\<rparr>"
  let ?st' = "\<lparr>catalog = exampleCatalog, bookings = [?saved]\<rparr>"
  have ne: "b_products testBooking \<noteq> []" by (simp add: testBooking_def)
  note t = booking_total_recomputed[where b = testBooking and t = "Some 1000"
      and u = None and w = "- 1 / 100" and coll = "[]"
      and uid = userE and req = twoLineRequest and t' = "Some 1000" and st = exampleServer
      and bk = ?saved and st' = ?st']
  have sum: "sum_list (map (\<lambda>l. bl_price l * of_int (bl_quantity l)) (b_products testBooking))
      = 71 / 2"
    by (simp add: testBooking_def)
  from t ne have a: "b_totalAmount (preSave (testBooking\<lparr>b_totalAmount := Some 1000\<rparr>)) =
      Some (71 / 2)"
    unfolding sum by blast
  have ok: "(case Some (1000::rat) of None \<Rightarrow> True | Some v \<Rightarrow> 0 \<le> v)
        \<and> (case None :: rat option of None \<Rightarrow> True | Some v \<Rightarrow> 0 \<le> v)"
    by simp
  from t ok have same: "save (testBooking\<lparr>b_totalAmount := Some 1000\<rparr>) [] =
       save (testBooking\<lparr>b_totalAmount := None\<rparr>) []"
    by blast
  have neg: "(- 1 / 100 :: rat) < 0" by simp
  from t neg have refused:
    "save (testBooking\<lparr>b_totalAmount := Some (- 1 / 100)\<rparr>) [] = Inl ValidationError"
    by blast
  from t have b: "postBookings userE (twoLineRequest\<lparr>rq_totalAmount := Some 1000\<rparr>) exampleServer =
       postBookings userE twoLineRequest exampleServer"
    by blast
  from t run_twoLine have "b_totalAmount ?saved =
      Some (sum_list (map (\<lambda>l. bl_price l * of_int (bl_quantity l)) (b_products ?saved)))"
    by blast
  then have "b_totalAmount ?saved = Some (71 / 2)" by simp
  with run_twoLine
  have "postBookings userE twoLineRequest exampleServer = (Created ?saved, ?st')
        \<and> b_totalAmount ?saved = Some (71 / 2)"
    by (intro conjI)
  then have c: "\<exists>bk st'. postBookings userE twoLineRequest exampleServer = (Created bk, st')
        \<and> b_totalAmount bk = Some (71 / 2)"
    by - (rule exI, rule exI, assumption)
  from ne save_testBooking a same refused b c show ?thesis by (intro conjI)
qed

text \<open>
  The total that a caller supplies is not ignored in every case: the booking of
  src/tests/models/Booking.test.js (two at 10.00, one at 15.50), given the total \<open>-5\<close>, is
  refused by \<open>save\<close> and nothing is stored, while with the total \<open>0\<close> it is stored with
  the sum over its lines.
\<close>

theorem booking_negative_total_counterexample:
  "b_products testBooking \<noteq> []
   \<and> save (testBooking\<lparr>b_totalAmount := Some (- 5)\<rparr>) [] = Inl ValidationError
   \<and> save (testBooking\<lparr>b_totalAmount := Some 0\<rparr>) [] =
       Inr (testBooking\<lparr>b_totalAmount := Some (71 / 2)\<rparr>,
            [testBooking\<lparr>b_totalAmount := Some (71 / 2)\<rparr>])"
proof -
  have ne: "b_products testBooking \<noteq> []" by (simp add: testBooking_def)
  have refused: "save (testBooking\<lparr>b_totalAmount := Some (- 5)\<rparr>) [] = Inl ValidationError"
    by (simp add: save_def validate_testBooking)
  have same: "testBooking\<lparr>b_totalAmount := Some 0\<rparr> = testBooking"
    by (simp add: testBooking_def)
  from ne refused save_testBooking show ?thesis
    unfolding same by (intro conjI)
qed

end
